theory Spec2Isabelle
  imports Main
begin

unbundle bit_operations_syntax

section \<open>Data model\<close>

text \<open>
  \<^verbatim>\<open>slog.Level\<close> is a Go \<^verbatim>\<open>int\<close>; the levels compared in this package are far from
  the machine bounds and no arithmetic is done on them, so they are modelled as \<open>int\<close>.
  A \<^verbatim>\<open>*time.Location\<close> is named by its IANA name; a \<^verbatim>\<open>time.Time\<close> is an instant together
  with the location it is presented in. \<^verbatim>\<open>Time.In\<close> keeps the instant and replaces the location.
\<close>

type_synonym level = int
type_synonym location = string

record time =
  instant :: int
  zone :: location

definition time_UTC :: location where
  "time_UTC = ''UTC''"

definition time_In :: "time \<Rightarrow> location \<Rightarrow> time" where
  "time_In t l = t\<lparr>zone := l\<rparr>"

type_synonym attr = "string \<times> string"

record log_record =
  r_Time :: time
  r_Message :: string
  r_Level :: level
  r_Attrs :: "attr list"

text \<open>
  Errors are values; \<^verbatim>\<open>fmt.Errorf("...: %w", err)\<close> wraps an inner error (which may be nil),
  \<^verbatim>\<open>fmt.Errorf("%w: %w", e1, e2)\<close> wraps two.
\<close>

datatype error = Base string | Wrap string "error option" | Wrap2 error error

definition errInvalidOption :: error where
  "errInvalidOption = Base ''invalid multislog option''"

definition errInvalidLogFileName :: error where
  "errInvalidLogFileName = Base ''invalid log file name''"

definition errSMTPFailure :: error where
  "errSMTPFailure = Base ''smtp failure''"

text \<open>\<^verbatim>\<open>errors.Is\<close>: the target occurs somewhere along the chain of wrapped errors.\<close>

fun errors_Is :: "error \<Rightarrow> error \<Rightarrow> bool" where
  "errors_Is (Base s) t = (Base s = t)"
| "errors_Is (Wrap s None) t = (Wrap s None = t)"
| "errors_Is (Wrap s (Some e)) t = (Wrap s (Some e) = t \<or> errors_Is e t)"
| "errors_Is (Wrap2 e1 e2) t = (Wrap2 e1 e2 = t \<or> errors_Is e1 t \<or> errors_Is e2 t)"

record smtpClient =
  Host :: string
  Port :: string
  Username :: string
  Password :: string
  Sender :: string
  Recipient :: string

text \<open>An open \<^verbatim>\<open>*os.File\<close>: the name it was opened under, and the flags and mode of the open call.\<close>

record os_file =
  f_name :: string
  f_flag :: int
  f_perm :: int

text \<open>
  The sinks (\<^verbatim>\<open>slog.Handler\<close> implementations) this package registers or tests with. Handlers
  are held by pointer, so they live in a heap and the dispatcher holds addresses.
  \<^item> \<open>EmailHandler\<close>: \<^verbatim>\<open>emailHandler{smtpClient, Level}\<close> of \<^verbatim>\<open>email_handler.go\<close>;
  \<^item> \<open>TextHandler\<close>, \<open>JSONHandler\<close>: the standard library handlers built by
    \<^verbatim>\<open>EnableConsole\<close> and \<^verbatim>\<open>EnableLogFile\<close>, with their minimum level and the attributes and
    groups accumulated by derivation (the JSON handler also with the file it writes to);
  \<^item> \<open>ClosingHandler\<close>: the test double \<^verbatim>\<open>closingHandler{closed}\<close>;
  \<^item> \<open>MockEmailHandler\<close>: the test double \<^verbatim>\<open>mockEmailHandler{closed, fail}\<close>.
\<close>

type_synonym addr = nat

datatype sink =
    EmailHandler smtpClient level
  | TextHandler level "attr list" "string list"
  | JSONHandler os_file level "attr list" "string list"
  | ClosingHandler bool
  | MockEmailHandler bool bool

text \<open>
  What the program does to the outside, in the order it happens: a call of a sink's
  \<^verbatim>\<open>Handle\<close> made by the dispatcher, a mail handed to the SMTP transport, a line written by a
  standard library handler, a call of a sink's \<^verbatim>\<open>Close\<close>, a close of an OS file, a call
  of \<^verbatim>\<open>os.OpenFile\<close> with its path, flags and mode, a line on the diagnostic stream (stderr).
\<close>

datatype event =
    Invoke addr log_record
  | Mail string string string string
  | Written addr log_record "attr list" "string list"
  | CloseSink addr
  | CloseFile os_file
  | OpenFile string int int
  | Stderr string error

record world =
  heap :: "addr \<Rightarrow> sink"
  next_addr :: addr
  trace :: "event list"

definition emit :: "event \<Rightarrow> world \<Rightarrow> world" where
  "emit e w = w\<lparr>trace := trace w @ [e]\<rparr>"

definition alloc :: "sink \<Rightarrow> world \<Rightarrow> addr \<times> world" where
  "alloc s w = (next_addr w, w\<lparr>heap := (heap w)(next_addr w := s), next_addr := Suc (next_addr w)\<rparr>)"

text \<open>
  The operating system, the network and the standard library formatting functions are outside
  the package: each is a parameter, so every theorem holds whatever they answer.
\<close>

record env =
  os_Executable :: "error + string"
  EvalSymlinks :: "string \<Rightarrow> error + string"
  os_Stat :: "string \<Rightarrow> error option"
  os_OpenFile_err :: "string \<Rightarrow> int \<Rightarrow> int \<Rightarrow> error option"
  file_Close_err :: "os_file \<Rightarrow> error option"
  LoadLocation :: "string \<Rightarrow> error + location"
  smtp_SendMail :: "string \<Rightarrow> string \<Rightarrow> string list \<Rightarrow> string \<Rightarrow> error option"
  write_err :: "addr \<Rightarrow> log_record \<Rightarrow> error option"
  level_String :: "level \<Rightarrow> string"
  time_Format :: "time \<Rightarrow> string"

section \<open>smtp_client.go\<close>

definition CRLF :: string where
  "CRLF = [CHR 0x0D, CHR 0x0A]"

definition newSMTPClient :: "string \<Rightarrow> string \<Rightarrow> string \<Rightarrow> string \<Rightarrow> string \<Rightarrow> string \<Rightarrow> smtpClient" where
  "newSMTPClient host port username password sender recipient =
     \<lparr>Host = host, Port = port, Username = username, Password = password,
      Sender = sender, Recipient = recipient\<rparr>"

definition smtpClient_Send :: "env \<Rightarrow> smtpClient \<Rightarrow> string \<Rightarrow> string \<Rightarrow> string \<Rightarrow> world \<Rightarrow> error option \<times> world" where
  "smtpClient_Send E sc subject body recipient w =
     (let addr = Host sc @ '':'' @ Port sc;
          msg = ''To: '' @ recipient @ CRLF @ ''Subject: '' @ subject @ CRLF @ CRLF @ body;
          w' = emit (Mail addr (Sender sc) recipient msg) w
      in case smtp_SendMail E addr (Sender sc) [recipient] msg of
           Some e \<Rightarrow> (Some (Wrap ''SMTP Client couldn't send mail. Error: '' (Some e)), w')
         | None \<Rightarrow> (None, w'))"

section \<open>email_handler.go\<close>

definition emailHandler_Enabled :: "level \<Rightarrow> level \<Rightarrow> bool" where
  "emailHandler_Enabled eh_Level lvl = (lvl \<ge> eh_Level)"

definition format_attrs :: "attr list \<Rightarrow> string" where
  "format_attrs as = concat (map (\<lambda>(k, v). k @ ''='' @ v @ '' '') as)"

definition emailHandler_Handle :: "env \<Rightarrow> smtpClient \<Rightarrow> level \<Rightarrow> log_record \<Rightarrow> world \<Rightarrow> error option \<times> world" where
  "emailHandler_Handle E sc eh_Level r w =
     (if r_Level r < eh_Level then (None, w)
      else
        let buf = format_attrs (r_Attrs r);
            msg = ''Level: '' @ level_String E (r_Level r) @ [CHR 0x0A]
                  @ ''Time: '' @ time_Format E (r_Time r) @ [CHR 0x0A]
                  @ ''Message: '' @ r_Message r @ [CHR 0x0A]
                  @ ''Attributes: '' @ buf
        in case smtpClient_Send E sc ''Log Alert'' msg (Recipient sc) w of
             (Some e, w') \<Rightarrow> (Some (Wrap ''logger couldn't send emailr: '' (Some e)), w')
           | (None, w') \<Rightarrow> (None, w'))"

text \<open>\<^verbatim>\<open>WithAttrs\<close> and \<^verbatim>\<open>WithGroup\<close> of the email handler return the receiver: the same pointer.\<close>

definition emailHandler_WithAttrs :: "addr \<Rightarrow> attr list \<Rightarrow> world \<Rightarrow> addr \<times> world" where
  "emailHandler_WithAttrs eh attrs w = (eh, w)"

definition emailHandler_WithGroup :: "addr \<Rightarrow> string \<Rightarrow> world \<Rightarrow> addr \<times> world" where
  "emailHandler_WithGroup eh name w = (eh, w)"

section \<open>The handler interface, dispatched on the object at an address\<close>

text \<open>
  The standard library handlers accept a level at or above their minimum, write one line per
  record (the write may fail), and derive by cloning themselves with the attributes or the
  group appended (\<^verbatim>\<open>WithGroup\<close> with an empty name returns the receiver). The test doubles accept
  every level, handle without effect and derive to themselves.
\<close>

definition sink_Enabled :: "sink \<Rightarrow> level \<Rightarrow> bool" where
  "sink_Enabled s lvl =
     (case s of
        EmailHandler sc l \<Rightarrow> emailHandler_Enabled l lvl
      | TextHandler l as gs \<Rightarrow> lvl \<ge> l
      | JSONHandler f l as gs \<Rightarrow> lvl \<ge> l
      | ClosingHandler c \<Rightarrow> True
      | MockEmailHandler c fl \<Rightarrow> True)"

definition sink_Handle :: "env \<Rightarrow> addr \<Rightarrow> log_record \<Rightarrow> world \<Rightarrow> error option \<times> world" where
  "sink_Handle E a r w =
     (case heap w a of
        EmailHandler sc l \<Rightarrow> emailHandler_Handle E sc l r w
      | TextHandler l as gs \<Rightarrow> (write_err E a r, emit (Written a r as gs) w)
      | JSONHandler f l as gs \<Rightarrow> (write_err E a r, emit (Written a r as gs) w)
      | ClosingHandler c \<Rightarrow> (None, w)
      | MockEmailHandler c fl \<Rightarrow> (None, w))"

definition sink_WithAttrs :: "addr \<Rightarrow> attr list \<Rightarrow> world \<Rightarrow> addr \<times> world" where
  "sink_WithAttrs a attrs w =
     (case heap w a of
        EmailHandler sc l \<Rightarrow> emailHandler_WithAttrs a attrs w
      | TextHandler l as gs \<Rightarrow> alloc (TextHandler l (as @ attrs) gs) w
      | JSONHandler f l as gs \<Rightarrow> alloc (JSONHandler f l (as @ attrs) gs) w
      | ClosingHandler c \<Rightarrow> (a, w)
      | MockEmailHandler c fl \<Rightarrow> (a, w))"

definition sink_WithGroup :: "addr \<Rightarrow> string \<Rightarrow> world \<Rightarrow> addr \<times> world" where
  "sink_WithGroup a name w =
     (case heap w a of
        EmailHandler sc l \<Rightarrow> emailHandler_WithGroup a name w
      | TextHandler l as gs \<Rightarrow> (if name = [] then (a, w) else alloc (TextHandler l as (gs @ [name])) w)
      | JSONHandler f l as gs \<Rightarrow> (if name = [] then (a, w) else alloc (JSONHandler f l as (gs @ [name])) w)
      | ClosingHandler c \<Rightarrow> (a, w)
      | MockEmailHandler c fl \<Rightarrow> (a, w))"

section \<open>multi_handler.go\<close>

record multihandler =
  tz :: "location option"
  handlers :: "addr list"

fun any_Enabled :: "world \<Rightarrow> addr list \<Rightarrow> level \<Rightarrow> bool" where
  "any_Enabled w [] lvl = False"
| "any_Enabled w (h # hs) lvl = (if sink_Enabled (heap w h) lvl then True else any_Enabled w hs lvl)"

definition multihandler_Enabled :: "multihandler \<Rightarrow> level \<Rightarrow> world \<Rightarrow> bool" where
  "multihandler_Enabled mh lvl w = any_Enabled w (handlers mh) lvl"

text \<open>
  The loop of \<^verbatim>\<open>Handle\<close>: each handler is asked \<^verbatim>\<open>Enabled\<close> and, if it accepts, its \<^verbatim>\<open>Handle\<close>
  is called (the event \<open>Invoke\<close> marks the call) and the error it returns is dropped.
\<close>

fun fan_out :: "env \<Rightarrow> addr list \<Rightarrow> log_record \<Rightarrow> world \<Rightarrow> world" where
  "fan_out E [] r w = w"
| "fan_out E (h # hs) r w =
     (if sink_Enabled (heap w h) (r_Level r)
      then (case sink_Handle E h r (emit (Invoke h r) w) of (err, w') \<Rightarrow> fan_out E hs r w')
      else fan_out E hs r w)"

definition localize :: "multihandler \<Rightarrow> log_record \<Rightarrow> log_record" where
  "localize mh r = (case tz mh of Some l \<Rightarrow> r\<lparr>r_Time := time_In (r_Time r) l\<rparr> | None \<Rightarrow> r)"

definition multihandler_Handle :: "env \<Rightarrow> multihandler \<Rightarrow> log_record \<Rightarrow> world \<Rightarrow> error option \<times> world" where
  "multihandler_Handle E mh r w = (None, fan_out E (handlers mh) (localize mh r) w)"

text \<open>The calls of sinks' \<^verbatim>\<open>Handle\<close> found in a trace, in order.\<close>

fun invocations :: "event list \<Rightarrow> (addr \<times> log_record) list" where
  "invocations [] = []"
| "invocations (Invoke a r # es) = (a, r) # invocations es"
| "invocations (e # es) = invocations es"

fun derive_attrs :: "addr list \<Rightarrow> attr list \<Rightarrow> world \<Rightarrow> addr list \<times> world" where
  "derive_attrs [] attrs w = ([], w)"
| "derive_attrs (h # hs) attrs w =
     (case sink_WithAttrs h attrs w of (h', w') \<Rightarrow>
        (case derive_attrs hs attrs w' of (hs', w'') \<Rightarrow> (h' # hs', w'')))"

definition multihandler_WithAttrs :: "multihandler \<Rightarrow> attr list \<Rightarrow> world \<Rightarrow> multihandler \<times> world" where
  "multihandler_WithAttrs mh attrs w =
     (case derive_attrs (handlers mh) attrs w of (hs, w') \<Rightarrow> (\<lparr>tz = tz mh, handlers = hs\<rparr>, w'))"

fun derive_group :: "addr list \<Rightarrow> string \<Rightarrow> world \<Rightarrow> addr list \<times> world" where
  "derive_group [] name w = ([], w)"
| "derive_group (h # hs) name w =
     (case sink_WithGroup h name w of (h', w') \<Rightarrow>
        (case derive_group hs name w' of (hs', w'') \<Rightarrow> (h' # hs', w'')))"

definition multihandler_WithGroup :: "multihandler \<Rightarrow> string \<Rightarrow> world \<Rightarrow> multihandler \<times> world" where
  "multihandler_WithGroup mh name w =
     (case derive_group (handlers mh) name w of (hs, w') \<Rightarrow> (\<lparr>tz = tz mh, handlers = hs\<rparr>, w'))"

section \<open>multislog.go: the lifecycle\<close>

record Multislog =
  Logger :: "multihandler option"
  logFile :: "os_file option"
  timezone :: "location option"
  ms_handlers :: "addr list"

text \<open>
  The type assertion \<^verbatim>\<open>h.(interface{ Close() error })\<close>: of the sinks above only the two test
  doubles have a \<^verbatim>\<open>Close\<close> method. Both set their \<^verbatim>\<open>closed\<close> field; the mock email handler
  returns \<^verbatim>\<open>errSMTPFailure\<close> when its \<^verbatim>\<open>fail\<close> field is set.
\<close>

definition has_Close :: "sink \<Rightarrow> bool" where
  "has_Close s =
     (case s of
        EmailHandler sc l \<Rightarrow> False
      | TextHandler l as gs \<Rightarrow> False
      | JSONHandler f l as gs \<Rightarrow> False
      | ClosingHandler c \<Rightarrow> True
      | MockEmailHandler c fl \<Rightarrow> True)"

definition sink_Close :: "addr \<Rightarrow> world \<Rightarrow> error option \<times> world" where
  "sink_Close a w =
     (case heap w a of
        ClosingHandler c \<Rightarrow> (None, w\<lparr>heap := (heap w)(a := ClosingHandler True)\<rparr>)
      | MockEmailHandler c fl \<Rightarrow>
          (if fl then Some errSMTPFailure else None,
           w\<lparr>heap := (heap w)(a := MockEmailHandler True fl)\<rparr>)
      | EmailHandler sc l \<Rightarrow> (None, w)
      | TextHandler l as gs \<Rightarrow> (None, w)
      | JSONHandler f l as gs \<Rightarrow> (None, w))"

fun close_handlers :: "addr list \<Rightarrow> world \<Rightarrow> world" where
  "close_handlers [] w = w"
| "close_handlers (h # hs) w =
     (if has_Close (heap w h)
      then (case sink_Close h (emit (CloseSink h) w) of
              (Some err, w') \<Rightarrow>
                close_handlers hs (emit (Stderr ''multislog: failed to close handler: '' err) w')
            | (None, w') \<Rightarrow> close_handlers hs w')
      else close_handlers hs w)"

definition file_Close :: "env \<Rightarrow> os_file \<Rightarrow> world \<Rightarrow> error option \<times> world" where
  "file_Close E f w = (file_Close_err E f, emit (CloseFile f) w)"

definition Multislog_Close :: "env \<Rightarrow> Multislog \<Rightarrow> world \<Rightarrow> Multislog \<times> world" where
  "Multislog_Close E ms w =
     (let w1 = close_handlers (ms_handlers ms) w
      in case logFile ms of
           Some f \<Rightarrow>
             (case file_Close E f w1 of
                (Some err, w2) \<Rightarrow>
                  (ms\<lparr>logFile := None\<rparr>, emit (Stderr ''multislog: failed to close log file: '' err) w2)
              | (None, w2) \<Rightarrow> (ms\<lparr>logFile := None\<rparr>, w2))
         | None \<Rightarrow> (ms, w1))"

text \<open>The closes of sinks and of OS files found in a trace, in order.\<close>

fun closes :: "event list \<Rightarrow> event list" where
  "closes [] = []"
| "closes (CloseSink a # es) = CloseSink a # closes es"
| "closes (CloseFile f # es) = CloseFile f # closes es"
| "closes (e # es) = closes es"

section \<open>multislog.go: the path sandbox\<close>

text \<open>
  The path functions of the Go standard library, for Unix (\<^verbatim>\<open>os.PathSeparator\<close> is \<^verbatim>\<open>'/'\<close>),
  as package \<^verbatim>\<open>path/filepath\<close> documents them. \<^verbatim>\<open>Clean\<close> drops empty and \<^verbatim>\<open>.\<close> elements,
  lets an inner \<^verbatim>\<open>..\<close> remove the element before it, drops \<^verbatim>\<open>..\<close> at the start of a rooted
  path, keeps it at the start of a relative one, and returns \<^verbatim>\<open>.\<close> for an empty result.
  \<^verbatim>\<open>Dir\<close> cleans the path up to its last separator; \<^verbatim>\<open>Join\<close> joins the elements from the
  first non-empty one on with separators and cleans the result.
\<close>

definition PathSeparator :: char where
  "PathSeparator = CHR ''/''"

fun split_sep :: "string \<Rightarrow> string list" where
  "split_sep [] = [[]]"
| "split_sep (c # cs) =
     (if c = PathSeparator then [] # split_sep cs
      else (case split_sep cs of e # es \<Rightarrow> (c # e) # es | [] \<Rightarrow> [[c]]))"

fun join_sep :: "string list \<Rightarrow> string" where
  "join_sep [] = []"
| "join_sep [e] = e"
| "join_sep (e # es) = e @ [PathSeparator] @ join_sep es"

text \<open>One element of the path against the elements kept so far (the last kept one first).\<close>

definition clean_step :: "bool \<Rightarrow> string list \<Rightarrow> string \<Rightarrow> string list" where
  "clean_step rooted kept e =
     (if e = [] then kept
      else if e = ''.'' then kept
      else if e = ''..'' then
        (case kept of
           [] \<Rightarrow> (if rooted then [] else [e])
         | k # ks \<Rightarrow> (if k = ''..'' then e # kept else ks))
      else e # kept)"

definition filepath_Clean :: "string \<Rightarrow> string" where
  "filepath_Clean path =
     (if path = [] then ''.''
      else
        let rooted = (hd path = PathSeparator);
            kept = foldl (clean_step rooted) [] (split_sep path);
            out = (if rooted then [PathSeparator] else []) @ join_sep (rev kept)
        in if out = [] then ''.'' else out)"

definition filepath_Dir :: "string \<Rightarrow> string" where
  "filepath_Dir path = filepath_Clean (rev (dropWhile (\<lambda>c. c \<noteq> PathSeparator) (rev path)))"

definition filepath_Join :: "string \<Rightarrow> string \<Rightarrow> string" where
  "filepath_Join a b =
     (if a \<noteq> [] then filepath_Clean (a @ [PathSeparator] @ b)
      else if b \<noteq> [] then filepath_Clean b
      else [])"

definition strings_HasPrefix :: "string \<Rightarrow> string \<Rightarrow> bool" where
  "strings_HasPrefix s prefix = (length s \<ge> length prefix \<and> take (length prefix) s = prefix)"

fun strings_Contains :: "string \<Rightarrow> string \<Rightarrow> bool" where
  "strings_Contains [] substr = (substr = [])"
| "strings_Contains (c # cs) substr =
     (if strings_HasPrefix (c # cs) substr then True else strings_Contains cs substr)"

text \<open>
  The open flags and modes, with the values of Linux. \<^verbatim>\<open>os.OpenFile\<close> refuses a name with a
  NUL byte before it asks the operating system; otherwise the operating system decides, and a
  successful open yields a file that remembers the call.
\<close>

definition O_WRONLY :: int where "O_WRONLY = 0x1"
definition O_RDWR :: int where "O_RDWR = 0x2"
definition O_CREATE :: int where "O_CREATE = 0x40"
definition O_TRUNC :: int where "O_TRUNC = 0x200"
definition O_APPEND :: int where "O_APPEND = 0x400"
definition O_ACCMODE :: int where "O_ACCMODE = 0x3"

text \<open>The modes are octal in the source: \<^verbatim>\<open>0o600\<close> is 384 and \<^verbatim>\<open>0o644\<close> is 420.\<close>

definition permOwnerRead :: int where "permOwnerRead = 6 * 64"
definition permWorldRead :: int where "permWorldRead = 6 * 64 + 4 * 8 + 4"

definition EINVAL :: error where
  "EINVAL = Base ''invalid argument''"

definition os_OpenFile :: "env \<Rightarrow> string \<Rightarrow> int \<Rightarrow> int \<Rightarrow> world \<Rightarrow> (error + os_file) \<times> world" where
  "os_OpenFile E name flag perm w =
     (let w' = emit (OpenFile name flag perm) w
      in if CHR 0x00 \<in> set name then (Inl EINVAL, w')
         else case os_OpenFile_err E name flag perm of
                Some err \<Rightarrow> (Inl err, w')
              | None \<Rightarrow> (Inr \<lparr>f_name = name, f_flag = flag, f_perm = perm\<rparr>, w'))"

text \<open>The last part of \<^verbatim>\<open>openLogFile\<close>, the same in both versions: flags, mode and the open.\<close>

definition open_with_flags :: "env \<Rightarrow> string \<Rightarrow> string \<Rightarrow> bool \<Rightarrow> bool \<Rightarrow> world \<Rightarrow> (error + os_file) \<times> world" where
  "open_with_flags E filename logPath allowRead clearOnRestart w =
     (let flags = O_CREATE;
          logFilePermission = permOwnerRead;
          (flags, logFilePermission) =
             (if allowRead then (flags OR O_RDWR, permWorldRead)
              else (flags OR O_WRONLY, logFilePermission));
          flags = (if clearOnRestart then flags OR O_TRUNC else flags OR O_APPEND)
      in case os_OpenFile E logPath flags logFilePermission w of
           (Inl err, w') \<Rightarrow> (Inl (Wrap (''couldn't open '' @ filename @ '' logfile: '') (Some err)), w')
         | (Inr f, w') \<Rightarrow> (Inr f, w'))"

text \<open>
  \<^verbatim>\<open>openLogFile\<close> as \<^verbatim>\<open>multislog.go\<close> has it now (the version the tests of the package are
  written against): after the check of the name it asks \<^verbatim>\<open>os.Stat\<close> for the base directory
  and compares the joined path, not resolved, with the base directory.
\<close>

definition openLogFile :: "env \<Rightarrow> string \<Rightarrow> bool \<Rightarrow> bool \<Rightarrow> world \<Rightarrow> (error + os_file) \<times> world" where
  "openLogFile E filename allowRead clearOnRestart w =
     (case os_Executable E of
        Inl err \<Rightarrow> (Inl (Wrap ''resolve executable path: '' (Some err)), w)
      | Inr exePath \<Rightarrow>
     (case EvalSymlinks E exePath of
        Inl err \<Rightarrow> (Inl (Wrap ''resolve executable symlinks: '' (Some err)), w)
      | Inr exePath \<Rightarrow>
     (let baseDir = filepath_Dir exePath;
          cleanName = filepath_Clean filename
      in if cleanName \<noteq> filename \<or> strings_Contains cleanName [PathSeparator]
         then (Inl (Wrap filename (Some errInvalidLogFileName)), w)
         else
           let logPath = filepath_Join baseDir cleanName
           in case os_Stat E baseDir of
                Some err \<Rightarrow> (Inl (Wrap ''log directory does not exist: '' (Some err)), w)
              | None \<Rightarrow>
                  if \<not> strings_HasPrefix (logPath @ [PathSeparator]) (baseDir @ [PathSeparator])
                  then (Inl (Wrap ''log file escapes executable directory: '' None), w)
                  else open_with_flags E filename logPath allowRead clearOnRestart w)))"

text \<open>
  \<^verbatim>\<open>openLogFile\<close> as the other copy of \<^verbatim>\<open>multislog.go\<close> in the repository has it: the joined
  path is resolved with \<^verbatim>\<open>filepath.EvalSymlinks\<close> and the resolved path is compared.
\<close>

definition openLogFile_resolving :: "env \<Rightarrow> string \<Rightarrow> bool \<Rightarrow> bool \<Rightarrow> world \<Rightarrow> (error + os_file) \<times> world" where
  "openLogFile_resolving E filename allowRead clearOnRestart w =
     (case os_Executable E of
        Inl err \<Rightarrow> (Inl (Wrap ''resolve executable path: '' (Some err)), w)
      | Inr exePath \<Rightarrow>
     (case EvalSymlinks E exePath of
        Inl err \<Rightarrow> (Inl (Wrap ''resolve executable symlinks: '' (Some err)), w)
      | Inr exePath \<Rightarrow>
     (let baseDir = filepath_Dir exePath;
          cleanName = filepath_Clean filename
      in if cleanName \<noteq> filename \<or> strings_Contains cleanName [PathSeparator]
         then (Inl (Wrap filename (Some errInvalidLogFileName)), w)
         else
           let logPath = filepath_Join baseDir cleanName
           in case EvalSymlinks E logPath of
                Inl err \<Rightarrow> (Inl (Wrap ''resolve log path: '' (Some err)), w)
              | Inr logPath \<Rightarrow>
                  if \<not> strings_HasPrefix (logPath @ [PathSeparator]) (baseDir @ [PathSeparator])
                  then (Inl (Wrap ''log file escapes executable directory: '' None), w)
                  else open_with_flags E filename logPath allowRead clearOnRestart w)))"

text \<open>
  The check the fuzz test \<^verbatim>\<open>FuzzOpenLogFile\<close> makes on a file \<^verbatim>\<open>openLogFile\<close> returned: the
  name of the file, with symlinks resolved, lies under the resolved directory of the
  executable. \<open>None\<close> stands for a \<^verbatim>\<open>t.Fatalf\<close> of the test on a failed resolution.
\<close>

definition fuzz_check :: "env \<Rightarrow> os_file \<Rightarrow> bool option" where
  "fuzz_check E f =
     (case os_Executable E of
        Inl err \<Rightarrow> None
      | Inr exe \<Rightarrow>
     (case EvalSymlinks E exe of
        Inl err \<Rightarrow> None
      | Inr exe \<Rightarrow>
     (let baseDir = filepath_Dir exe
      in case EvalSymlinks E (f_name f) of
           Inl err \<Rightarrow> None
         | Inr logPath \<Rightarrow>
             Some (strings_HasPrefix (logPath @ [PathSeparator]) (baseDir @ [PathSeparator])))))"

section \<open>multislog.go: the constructor and its options\<close>

datatype Option =
    EnableTimezone string
  | EnableConsole level
  | EnableLogFile level string bool bool
  | EnableEmail level string string string string string string

text \<open>
  Running one option on the logger under construction. \<^verbatim>\<open>EnableEmail\<close> passes \<^verbatim>\<open>port\<close> and
  \<^verbatim>\<open>host\<close> to \<^verbatim>\<open>newSMTPClient\<close> in this order, as the source does.
\<close>

definition run_Option :: "env \<Rightarrow> Option \<Rightarrow> Multislog \<Rightarrow> world \<Rightarrow> error option \<times> Multislog \<times> world" where
  "run_Option E opt ms w =
     (case opt of
        EnableTimezone name \<Rightarrow>
          (case LoadLocation E name of
             Inl err \<Rightarrow> (Some (Wrap ''failed to fallback to UTC time zone: '' (Some err)), ms, w)
           | Inr l \<Rightarrow> (None, ms\<lparr>timezone := Some l\<rparr>, w))
      | EnableConsole lvl \<Rightarrow>
          (case alloc (TextHandler lvl [] []) w of
             (consoleHandler, w') \<Rightarrow>
               (None, ms\<lparr>ms_handlers := ms_handlers ms @ [consoleHandler]\<rparr>, w'))
      | EnableLogFile lvl filename allowRead clearOnRestart \<Rightarrow>
          (case openLogFile E filename allowRead clearOnRestart w of
             (Inl err, w') \<Rightarrow> (Some err, ms, w')
           | (Inr f, w') \<Rightarrow>
               (case alloc (JSONHandler f lvl [] []) w' of
                  (fileHandler, w'') \<Rightarrow>
                    (None, ms\<lparr>logFile := Some f, ms_handlers := ms_handlers ms @ [fileHandler]\<rparr>, w'')))
      | EnableEmail lvl host port username password sender recipient \<Rightarrow>
          (let sc = newSMTPClient port host username password sender recipient
           in case alloc (EmailHandler sc lvl) w of
                (emailHandler, w') \<Rightarrow>
                  (None, ms\<lparr>ms_handlers := ms_handlers ms @ [emailHandler]\<rparr>, w')))"

text \<open>The loop of \<^verbatim>\<open>New\<close> over the options; \<open>Inl\<close> is the value \<^verbatim>\<open>New\<close> panics with.\<close>

fun run_Options :: "env \<Rightarrow> Option list \<Rightarrow> Multislog \<Rightarrow> world \<Rightarrow> error + (Multislog \<times> world)" where
  "run_Options E [] ms w = Inr (ms, w)"
| "run_Options E (opt # opts) ms w =
     (case run_Option E opt ms w of
        (Some err, ms', w') \<Rightarrow> Inl (Wrap2 errInvalidOption err)
      | (None, ms', w') \<Rightarrow> run_Options E opts ms' w')"

definition New :: "env \<Rightarrow> Option list \<Rightarrow> world \<Rightarrow> error + (Multislog \<times> world)" where
  "New E opts w =
     (let ms = \<lparr>Logger = None, logFile = None, timezone = None, ms_handlers = []\<rparr>;
          utc = time_UTC;
          ms = ms\<lparr>timezone := Some utc\<rparr>
      in case run_Options E opts ms w of
           Inl err \<Rightarrow> Inl err
         | Inr (ms, w') \<Rightarrow>
             (let mh = \<lparr>tz = timezone ms, handlers = ms_handlers ms\<rparr>
              in Inr (ms\<lparr>Logger := Some mh\<rparr>, w')))"

section \<open>Concrete inputs\<close>

text \<open>
  An environment in which the executable is \<^verbatim>\<open>/opt/app/multislog\<close>, no path is a symlink,
  every open and close succeeds and the mail transport fails; and the same environment with
  one symlink \<^verbatim>\<open>/opt/app/link.log\<close> to \<^verbatim>\<open>/etc/passwd\<close>.
\<close>

definition env_plain :: env where
  "env_plain =
     \<lparr>os_Executable = Inr ''/opt/app/multislog'',
      EvalSymlinks = (\<lambda>p. Inr p),
      os_Stat = (\<lambda>p. None),
      os_OpenFile_err = (\<lambda>p fl pm. None),
      file_Close_err = (\<lambda>f. None),
      LoadLocation = (\<lambda>n. if n = ''Not/A_Timezone'' then Inl (Base ''unknown time zone'') else Inr n),
      smtp_SendMail = (\<lambda>a from to msg. Some errSMTPFailure),
      write_err = (\<lambda>a r. None),
      level_String = (\<lambda>l. if l < 4 then ''INFO'' else ''WARN''),
      time_Format = (\<lambda>t. zone t)\<rparr>"

definition env_symlink :: env where
  "env_symlink =
     env_plain\<lparr>EvalSymlinks :=
       (\<lambda>p. if p = ''/opt/app/link.log'' then Inr ''/etc/passwd'' else Inr p)\<rparr>"

definition world_empty :: world where
  "world_empty = \<lparr>heap = (\<lambda>a. ClosingHandler False), next_addr = 0, trace = []\<rparr>"

text \<open>
  The logger of the test \<^verbatim>\<open>TestClose_EmailHandler_CloseErrorIgnored\<close>, with an open log file
  in addition: a mock email handler whose \<^verbatim>\<open>Close\<close> fails at address 0, one whose \<^verbatim>\<open>Close\<close>
  succeeds at address 1.
\<close>

definition file_app :: os_file where
  "file_app = \<lparr>f_name = ''/opt/app/app.log'', f_flag = 577, f_perm = 384\<rparr>"

definition world_mocks :: world where
  "world_mocks =
     \<lparr>heap = (\<lambda>a. if a = 0 then MockEmailHandler False True else MockEmailHandler False False),
      next_addr = 2, trace = []\<rparr>"

definition ms_mocks :: Multislog where
  "ms_mocks = \<lparr>Logger = None, logFile = Some file_app, timezone = None, ms_handlers = [0, 1]\<rparr>"

text \<open>A record at level 4 (\<^verbatim>\<open>slog.LevelWarn\<close>) stamped in another zone, with one attribute.\<close>

definition record_warn :: log_record where
  "record_warn =
     \<lparr>r_Time = \<lparr>instant = 1700000000, zone = ''Local''\<rparr>, r_Message = ''disk full'',
      r_Level = 4, r_Attrs = [(''dev'', ''sda'')]\<rparr>"

text \<open>A world with one email handler at address 0, accepting level 4 and above.\<close>

definition world_email :: world where
  "world_email =
     \<lparr>heap = (\<lambda>a. EmailHandler
         (newSMTPClient ''smtp.example.org'' ''465'' ''admin'' ''pw'' ''from@example.org''
            ''to@example.org'') 4),
      next_addr = 1, trace = []\<rparr>"

text \<open>The options of a logger with a console at level 0 and an email sink at level 8.\<close>

definition opts_console_email :: "Option list" where
  "opts_console_email = [EnableConsole 0, EnableEmail 8 ''h'' ''25'' ''u'' ''p'' ''s'' ''r'']"

(*PROPERTIES*)

section \<open>Properties of the dispatcher\<close>

lemma invocations_append: "invocations (xs @ ys) = invocations xs @ invocations ys"
  by (induction xs rule: invocations.induct) simp_all

lemma smtpClient_Send_frame:
  "heap (snd (smtpClient_Send E sc subject body recipient w)) = heap w"
  "invocations (trace (snd (smtpClient_Send E sc subject body recipient w))) = invocations (trace w)"
  by (simp_all add: smtpClient_Send_def emit_def Let_def invocations_append split: option.splits)

lemma emailHandler_Handle_frame:
  "heap (snd (emailHandler_Handle E sc l r w)) = heap w"
  "invocations (trace (snd (emailHandler_Handle E sc l r w))) = invocations (trace w)"
  using smtpClient_Send_frame
  by (auto simp add: emailHandler_Handle_def Let_def split: prod.splits option.splits)
     (metis snd_conv)+

lemma sink_Handle_frame:
  "heap (snd (sink_Handle E a r w)) = heap w"
  "invocations (trace (snd (sink_Handle E a r w))) = invocations (trace w)"
  by (simp_all add: sink_Handle_def emailHandler_Handle_frame emit_def invocations_append split: sink.splits)

lemma fan_out_heap: "heap (fan_out E hs r w) = heap w"
proof (induction hs arbitrary: w)
  case Nil
  show ?case by simp
next
  case (Cons h hs)
  obtain err w' where s: "sink_Handle E h r (emit (Invoke h r) w) = (err, w')"
    by (cases "sink_Handle E h r (emit (Invoke h r) w)")
  have "heap w' = heap w"
    using sink_Handle_frame(1) [of E h r "emit (Invoke h r) w"] s by (simp add: emit_def)
  with Cons s show ?case by simp
qed

text \<open>
  The loop calls, in registration order, exactly the handlers whose \<^verbatim>\<open>Enabled\<close> accepts the
  record's level, each with the record it was given, whatever the handlers return.
\<close>

lemma fan_out_invocations:
  "invocations (trace (fan_out E hs r w)) =
     invocations (trace w) @ map (\<lambda>h. (h, r)) (filter (\<lambda>h. sink_Enabled (heap w h) (r_Level r)) hs)"
proof (induction hs arbitrary: w)
  case Nil
  show ?case by simp
next
  case (Cons h hs)
  obtain err w' where s: "sink_Handle E h r (emit (Invoke h r) w) = (err, w')"
    by (cases "sink_Handle E h r (emit (Invoke h r) w)")
  have hp: "heap w' = heap w"
    using sink_Handle_frame(1) [of E h r "emit (Invoke h r) w"] s by (simp add: emit_def)
  have tr: "invocations (trace w') = invocations (trace w) @ [(h, r)]"
    using sink_Handle_frame(2) [of E h r "emit (Invoke h r) w"] s
    by (simp add: emit_def invocations_append)
  show ?case
  proof (cases "sink_Enabled (heap w h) (r_Level r)")
    case True
    then show ?thesis using Cons [of w'] s hp tr by simp
  next
    case False
    then show ?thesis using Cons [of w] by simp
  qed
qed

lemma localize_Level: "r_Level (localize mh r) = r_Level r"
  by (simp add: localize_def time_In_def split: option.splits)

text \<open>
  Claim C1. For every record and every list of sinks, the calls of sinks' \<^verbatim>\<open>Handle\<close> that
  the dispatcher's \<^verbatim>\<open>Handle\<close> adds to the trace are exactly the sinks of the dispatcher whose
  own \<^verbatim>\<open>Enabled\<close> accepts the record's level, once each and in registration order: a sink
  that reports itself disabled for the level is not called, whatever the other sinks answer,
  and a sink that reports itself enabled is called.
\<close>

theorem Handle_invokes_exactly_the_enabled_sinks:
  "invocations (trace (snd (multihandler_Handle E mh r w))) =
     invocations (trace w) @
     map (\<lambda>h. (h, localize mh r))
       (filter (\<lambda>h. sink_Enabled (heap w h) (r_Level r)) (handlers mh))"
  by (simp add: multihandler_Handle_def fan_out_invocations localize_Level)

text \<open>
  Claim C7. The dispatcher's \<^verbatim>\<open>Handle\<close> returns no error, whatever the sinks' \<^verbatim>\<open>Handle\<close>
  return; and which sinks are called does not depend on the outcome of any sink's
  \<^verbatim>\<open>Handle\<close>: under any two behaviours \<open>E\<close> and \<open>E'\<close> of the mail transport and of the
  writers (failing or not), the same sinks are called with the same record.
\<close>

theorem Handle_never_fails_and_sinks_are_independent:
  "fst (multihandler_Handle E mh r w) = None \<and>
   invocations (trace (snd (multihandler_Handle E mh r w))) =
   invocations (trace (snd (multihandler_Handle E' mh r w)))"
  by (simp add: multihandler_Handle_def fan_out_invocations)

section \<open>Properties of the lifecycle\<close>

lemma closes_append: "closes (xs @ ys) = closes xs @ closes ys"
  by (induction xs rule: closes.induct) simp_all

lemma sink_Close_has_Close:
  "has_Close (heap (snd (sink_Close a w)) b) = has_Close (heap w b)"
  by (cases "heap w a"; cases "a = b"; simp add: sink_Close_def has_Close_def)

lemma sink_Close_trace: "trace (snd (sink_Close a w)) = trace w"
  by (simp add: sink_Close_def split: sink.splits)

text \<open>
  The loop over the handlers calls \<^verbatim>\<open>Close\<close> on every handler that has the method, in the
  order of the list, whether or not an earlier \<^verbatim>\<open>Close\<close> returned an error.
\<close>

lemma close_handlers_closes:
  "closes (trace (close_handlers hs w)) =
     closes (trace w) @ map CloseSink (filter (\<lambda>h. has_Close (heap w h)) hs)"
proof (induction hs arbitrary: w)
  case Nil
  show ?case by simp
next
  case (Cons h hs)
  obtain err w' where s: "sink_Close h (emit (CloseSink h) w) = (err, w')"
    by (cases "sink_Close h (emit (CloseSink h) w)")
  have hc: "\<And>b. has_Close (heap w' b) = has_Close (heap w b)"
    using sink_Close_has_Close [of h "emit (CloseSink h) w"] s by (simp add: emit_def)
  have tr: "trace w' = trace w @ [CloseSink h]"
    using sink_Close_trace [of h "emit (CloseSink h) w"] s by (simp add: emit_def)
  show ?case
  proof (cases "has_Close (heap w h)")
    case False
    then show ?thesis using Cons [of w] by simp
  next
    case True
    show ?thesis
    proof (cases err)
      case None
      then show ?thesis using True Cons [of w'] s hc tr by (simp add: closes_append)
    next
      case (Some e)
      then show ?thesis
        using True Cons [of "emit (Stderr ''multislog: failed to close handler: '' e) w'"] s hc tr
        by (simp add: closes_append emit_def)
    qed
  qed
qed

text \<open>
  Claim C6. The closes that \<^verbatim>\<open>Close\<close> adds to the trace are: one \<^verbatim>\<open>Close\<close> call for every
  registered sink that has a \<^verbatim>\<open>Close\<close> method, in registration order, and after all of them
  the close of the owned file if there is one. This holds whatever the sinks' and the file's
  closes return (the mock's \<^verbatim>\<open>fail\<close> field and the environment are arbitrary), so no failure
  stops the later closes; and \<^verbatim>\<open>Close\<close> returns no error: its result is the logger and the
  world only.
\<close>

theorem Close_closes_every_sink_in_order_then_the_file:
  "closes (trace (snd (Multislog_Close E ms w))) =
     closes (trace w)
     @ map CloseSink (filter (\<lambda>h. has_Close (heap w h)) (ms_handlers ms))
     @ (case logFile ms of Some f \<Rightarrow> [CloseFile f] | None \<Rightarrow> [])"
  by (simp add: Multislog_Close_def Let_def file_Close_def emit_def closes_append
      close_handlers_closes split: option.splits)

text \<open>
  Claim C5 says that a second \<^verbatim>\<open>Close\<close> performs no operation and attempts no second close
  on any sink. \<^verbatim>\<open>Close\<close> clears \<^verbatim>\<open>logFile\<close> but not \<^verbatim>\<open>handlers\<close>: on the logger with two
  mock email handlers and an open file, the first \<^verbatim>\<open>Close\<close> closes both sinks and the file,
  and the second \<^verbatim>\<open>Close\<close> calls \<^verbatim>\<open>Close\<close> on both sinks again (the file is not closed
  again), and reports the failure of the first sink on the diagnostic stream a second time.
\<close>

theorem Close_twice_closes_the_sinks_twice:
  "(case Multislog_Close env_plain ms_mocks world_mocks of
      (ms1, w1) \<Rightarrow>
        trace w1 =
          [CloseSink 0, Stderr ''multislog: failed to close handler: '' errSMTPFailure,
           CloseSink 1, CloseFile file_app] \<and>
        trace (snd (Multislog_Close env_plain ms1 w1)) =
          trace w1 @
          [CloseSink 0, Stderr ''multislog: failed to close handler: '' errSMTPFailure,
           CloseSink 1])"
  by (simp add: Multislog_Close_def ms_mocks_def world_mocks_def has_Close_def sink_Close_def
      emit_def file_Close_def env_plain_def Let_def)

section \<open>Properties of the email sink\<close>

text \<open>
  Claim C10. For every attribute list and every group name, the email sink's
  \<^verbatim>\<open>WithAttrs\<close> and \<^verbatim>\<open>WithGroup\<close> return the receiver (the same address) and change nothing,
  also when called through the handler interface; so handling a record with the derived
  handler does exactly what handling it with the original does (the same mail, the same
  result): the derived attributes and group names are dropped.
\<close>

theorem emailHandler_derivation_returns_the_receiver:
  assumes "heap w a = EmailHandler sc l"
  shows "emailHandler_WithAttrs a attrs w = (a, w) \<and> emailHandler_WithGroup a name w = (a, w) \<and>
         sink_WithAttrs a attrs w = (a, w) \<and> sink_WithGroup a name w = (a, w) \<and>
         (case sink_WithAttrs a attrs w of (a', w') \<Rightarrow> sink_Handle E a' r w') = sink_Handle E a r w \<and>
         (case sink_WithGroup a name w of (a', w') \<Rightarrow> sink_Handle E a' r w') = sink_Handle E a r w"
  using assms
  by (simp add: sink_WithAttrs_def sink_WithGroup_def emailHandler_WithAttrs_def
      emailHandler_WithGroup_def)

theorem emailHandler_derivation_witness:
  "sink_WithAttrs 0 [(''user'', ''bob'')] world_email = (0, world_email) \<and>
   sink_WithGroup 0 ''request'' world_email = (0, world_email) \<and>
   (case sink_WithAttrs 0 [(''user'', ''bob'')] world_email of
      (a', w') \<Rightarrow> sink_Handle env_plain a' record_warn w') =
     sink_Handle env_plain 0 record_warn world_email"
proof -
  have h: "heap world_email 0 =
             EmailHandler (newSMTPClient ''smtp.example.org'' ''465'' ''admin'' ''pw''
               ''from@example.org'' ''to@example.org'') 4"
    by (simp add: world_email_def)
  show ?thesis
    using emailHandler_derivation_returns_the_receiver
            [OF h, of "[(''user'', ''bob'')]" "''request''" env_plain record_warn]
    by simp
qed

section \<open>Properties of the open flags\<close>

lemma flags_cases:
  "(O_CREATE OR O_RDWR) OR O_TRUNC = 578" "(O_CREATE OR O_RDWR) OR O_APPEND = 1090"
  "(O_CREATE OR O_WRONLY) OR O_TRUNC = 577" "(O_CREATE OR O_WRONLY) OR O_APPEND = 1089"
  by (simp_all add: O_CREATE_def O_RDWR_def O_WRONLY_def O_TRUNC_def O_APPEND_def)

lemma open_with_flags_result:
  assumes "open_with_flags E filename logPath allowRead clearOnRestart w = (Inr f, w')"
  shows "f_name f = logPath \<and>
         f_flag f = (O_CREATE OR (if allowRead then O_RDWR else O_WRONLY))
                     OR (if clearOnRestart then O_TRUNC else O_APPEND) \<and>
         f_perm f = (if allowRead then permWorldRead else permOwnerRead) \<and>
         trace w' = trace w @ [OpenFile (f_name f) (f_flag f) (f_perm f)]"
  using assms
  by (auto simp add: open_with_flags_def os_OpenFile_def Let_def emit_def
      split: if_splits option.splits sum.splits prod.splits)

lemma openLogFile_reaches_open:
  assumes "openLogFile E filename allowRead clearOnRestart w = (Inr f, w')"
  shows "\<exists>logPath. open_with_flags E filename logPath allowRead clearOnRestart w = (Inr f, w')"
  using assms
  by (auto simp add: openLogFile_def Let_def split: sum.splits option.splits if_splits)

lemma openLogFile_test_log:
  "fst (openLogFile env_plain ''test.log'' False True world_empty) =
     Inr \<lparr>f_name = ''/opt/app/test.log'', f_flag = 577, f_perm = 384\<rparr>"
  by code_simp

text \<open>
  Claim C9. Whenever \<^verbatim>\<open>openLogFile\<close> returns a file, the one call of \<^verbatim>\<open>os.OpenFile\<close> it made
  had: the create flag set; access mode read-write and mode 0644 (420) if \<^verbatim>\<open>allowRead\<close>,
  else access mode write-only and mode 0600 (384); the truncate flag set exactly if
  \<^verbatim>\<open>clearOnRestart\<close>, and the append flag set exactly if not.
\<close>

theorem openLogFile_flags_and_permissions:
  assumes "openLogFile E filename allowRead clearOnRestart w = (Inr f, w')"
  shows "f_flag f AND O_CREATE = O_CREATE \<and>
         f_flag f AND O_ACCMODE = (if allowRead then O_RDWR else O_WRONLY) \<and>
         f_perm f = (if allowRead then 420 else 384) \<and>
         (f_flag f AND O_TRUNC = O_TRUNC) = clearOnRestart \<and>
         (f_flag f AND O_APPEND = O_APPEND) = (\<not> clearOnRestart) \<and>
         trace w' = trace w @ [OpenFile (f_name f) (f_flag f) (f_perm f)]"
proof -
  obtain logPath where o: "open_with_flags E filename logPath allowRead clearOnRestart w = (Inr f, w')"
    using openLogFile_reaches_open [OF assms] by blast
  note r = open_with_flags_result [OF o]
  have fl: "f_flag f = (if allowRead then (if clearOnRestart then 578 else 1090)
                        else (if clearOnRestart then 577 else 1089))"
    using r by (simp add: flags_cases)
  show ?thesis
    using r fl
    by (cases allowRead; cases clearOnRestart;
        simp add: O_CREATE_def O_RDWR_def O_WRONLY_def O_TRUNC_def O_APPEND_def O_ACCMODE_def
                  permWorldRead_def permOwnerRead_def)
qed

theorem openLogFile_flags_witness:
  "fst (openLogFile env_plain ''test.log'' False True world_empty) =
     Inr \<lparr>f_name = ''/opt/app/test.log'', f_flag = 577, f_perm = 384\<rparr> \<and>
   (577::int) AND O_CREATE = O_CREATE \<and> (577::int) AND O_ACCMODE = O_WRONLY \<and>
   (577 AND O_TRUNC = O_TRUNC) \<and> (577 AND O_APPEND \<noteq> O_APPEND)"
proof -
  have h: "openLogFile env_plain ''test.log'' False True world_empty =
             (Inr \<lparr>f_name = ''/opt/app/test.log'', f_flag = 577, f_perm = 384\<rparr>,
              snd (openLogFile env_plain ''test.log'' False True world_empty))"
    using openLogFile_test_log by (metis prod.collapse)
  show ?thesis using openLogFile_flags_and_permissions [OF h] openLogFile_test_log by simp
qed

section \<open>Properties of the timestamp normalization\<close>

lemma run_Option_timezone:
  assumes "run_Option E opt ms w = (None, ms', w')"
  shows "(\<forall>n. opt \<noteq> EnableTimezone n) \<longrightarrow> timezone ms' = timezone ms"
    and "timezone ms = Some l0 \<Longrightarrow> \<exists>l. timezone ms' = Some l"
  using assms
  by (auto simp add: run_Option_def alloc_def Let_def split: Option.splits sum.splits prod.splits)

lemma run_Options_no_timezone:
  assumes "run_Options E opts ms w = Inr (ms', w')" and "\<forall>n. EnableTimezone n \<notin> set opts"
  shows "timezone ms' = timezone ms"
  using assms
proof (induction opts arbitrary: ms w)
  case Nil
  then show ?case by simp
next
  case (Cons opt opts)
  obtain e ms1 w1 where s: "run_Option E opt ms w = (e, ms1, w1)"
    by (cases "run_Option E opt ms w")
  with Cons.prems(1) have e: "e = None" and rest: "run_Options E opts ms1 w1 = Inr (ms', w')"
    by (auto split: option.splits)
  have "timezone ms1 = timezone ms"
    using run_Option_timezone(1) [of E opt ms w ms1 w1] s e Cons.prems(2) by auto
  moreover have "timezone ms' = timezone ms1"
    using Cons.IH [OF rest] Cons.prems(2) by simp
  ultimately show ?case by simp
qed

lemma run_Options_some_timezone:
  assumes "run_Options E opts ms w = Inr (ms', w')" and "timezone ms = Some l0"
  shows "\<exists>l. timezone ms' = Some l"
  using assms
proof (induction opts arbitrary: ms w l0)
  case Nil
  then show ?case by simp
next
  case (Cons opt opts)
  obtain e ms1 w1 where s: "run_Option E opt ms w = (e, ms1, w1)"
    by (cases "run_Option E opt ms w")
  with Cons.prems(1) have e: "e = None" and rest: "run_Options E opts ms1 w1 = Inr (ms', w')"
    by (auto split: option.splits)
  obtain l1 where "timezone ms1 = Some l1"
    using run_Option_timezone(2) [of E opt ms w ms1 w1 l0] s e Cons.prems(2) by auto
  then show ?case using Cons.IH [OF rest] by simp
qed

lemma New_Logger:
  assumes "New E opts w0 = Inr (ms, w1)"
  shows "\<exists>ms'. run_Options E opts
                  \<lparr>Logger = None, logFile = None, timezone = Some time_UTC, ms_handlers = []\<rparr> w0
                = Inr (ms', w1)
           \<and> ms = ms'\<lparr>Logger := Some \<lparr>tz = timezone ms', handlers = ms_handlers ms'\<rparr>\<rparr>"
  using assms
  by (auto simp add: New_def Let_def split: sum.splits prod.splits)

lemma localize_Some:
  "tz mh = Some l \<Longrightarrow> localize mh r = r\<lparr>r_Time := \<lparr>instant = instant (r_Time r), zone = l\<rparr>\<rparr>"
  by (simp add: localize_def time_In_def)

text \<open>
  Claim C2. The dispatcher of every logger that \<^verbatim>\<open>New\<close> returns has a timezone \<open>l\<close>, which is
  UTC when the options contain no \<^verbatim>\<open>EnableTimezone\<close>; and for every record, every sink that
  the dispatcher's \<^verbatim>\<open>Handle\<close> calls receives one and the same record: the given record with
  its timestamp presented in \<open>l\<close> (the same instant), rewritten before the first sink is
  called.
\<close>

theorem Handle_localizes_once_before_fan_out:
  assumes "New E opts w0 = Inr (ms, w1)"
  shows "\<exists>mh l. Logger ms = Some mh \<and> tz mh = Some l \<and>
           ((\<forall>n. EnableTimezone n \<notin> set opts) \<longrightarrow> l = time_UTC) \<and>
           (\<forall>r w. invocations (trace (snd (multihandler_Handle E mh r w))) =
                    invocations (trace w) @
                    map (\<lambda>h. (h, r\<lparr>r_Time := \<lparr>instant = instant (r_Time r), zone = l\<rparr>\<rparr>))
                      (filter (\<lambda>h. sink_Enabled (heap w h) (r_Level r)) (handlers mh)))"
proof -
  obtain ms' where ro: "run_Options E opts
        \<lparr>Logger = None, logFile = None, timezone = Some time_UTC, ms_handlers = []\<rparr> w0 = Inr (ms', w1)"
    and ms: "ms = ms'\<lparr>Logger := Some \<lparr>tz = timezone ms', handlers = ms_handlers ms'\<rparr>\<rparr>"
    using New_Logger [OF assms] by blast
  obtain l where l: "timezone ms' = Some l"
    using run_Options_some_timezone [OF ro] by auto
  let ?mh = "\<lparr>tz = timezone ms', handlers = ms_handlers ms'\<rparr>"
  have a: "Logger ms = Some ?mh" using ms by simp
  have b: "tz ?mh = Some l" using l by simp
  have c: "(\<forall>n. EnableTimezone n \<notin> set opts) \<longrightarrow> l = time_UTC"
    using run_Options_no_timezone [OF ro] l by auto
  have d: "\<forall>r w. invocations (trace (snd (multihandler_Handle E ?mh r w))) =
                    invocations (trace w) @
                    map (\<lambda>h. (h, r\<lparr>r_Time := \<lparr>instant = instant (r_Time r), zone = l\<rparr>\<rparr>))
                      (filter (\<lambda>h. sink_Enabled (heap w h) (r_Level r)) (handlers ?mh))"
    using localize_Some [OF b]
    by (simp add: multihandler_Handle_def fan_out_invocations)
  show ?thesis using a b c d by blast
qed

end
